theory Spec2Isabelle
  imports Main
begin

section \<open>Go library functions used by the code\<close>

text \<open>
  Go strings are byte sequences; they are modelled as \<open>string\<close> (a list of characters).
  \<open>HasPrefix\<close> and \<open>Contains\<close> are \<open>strings.HasPrefix\<close> and \<open>strings.Contains\<close>, which the
  tests of the repository use to inspect rendered messages. The empty string is a prefix
  and a substring of every string, as in Go.
\<close>

fun HasPrefix :: "string \<Rightarrow> string \<Rightarrow> bool" where
  "HasPrefix s [] = True"
| "HasPrefix [] (p # ps) = False"
| "HasPrefix (c # cs) (p # ps) = (c = p \<and> HasPrefix cs ps)"

fun Contains :: "string \<Rightarrow> string \<Rightarrow> bool" where
  "Contains [] substr = (substr = [])"
| "Contains (c # cs) substr = (HasPrefix (c # cs) substr \<or> Contains cs substr)"

text \<open>
  The verb \<open>%d\<close> of \<open>fmt.Sprintf\<close> on a Go \<open>int\<close>: decimal digits, most significant
  first, with a leading minus sign for a negative number. No arithmetic is done on these
  integers anywhere in the code, so they are modelled as \<open>int\<close>.
\<close>

definition digitChar :: "nat \<Rightarrow> char" where
  "digitChar d = ''0123456789'' ! d"

function natDecimal :: "nat \<Rightarrow> string" where
  "natDecimal n = (if n < 10 then [digitChar n] else natDecimal (n div 10) @ [digitChar (n mod 10)])"
  by pat_completeness auto
termination
  by (relation "measure (\<lambda>n. n)") auto

declare natDecimal.simps [simp del]

definition Itoa :: "int \<Rightarrow> string" where
  "Itoa i = (if i < 0 then CHR ''-'' # natDecimal (nat (- i)) else natDecimal (nat i))"

section \<open>Package api: the error types (errors.go)\<close>

definition ExitSuccess :: int where "ExitSuccess = 0"
definition ExitError :: int where "ExitError = 1"
definition ExitUsage :: int where "ExitUsage = 2"
definition ExitAuth :: int where "ExitAuth = 3"
definition ExitNotFound :: int where "ExitNotFound = 4"
definition ExitRateLimit :: int where "ExitRateLimit = 5"

text \<open>The status constants of \<open>net/http\<close> that \<open>ExitCode\<close> switches on.\<close>

definition StatusUnauthorized :: int where "StatusUnauthorized = 401"
definition StatusForbidden :: int where "StatusForbidden = 403"
definition StatusNotFound :: int where "StatusNotFound = 404"
definition StatusTooManyRequests :: int where "StatusTooManyRequests = 429"

record APIError =
  StatusCode :: int
  Message :: string
  Details :: string
  RequestedID :: string
  ExpectedResource :: string

definition APIError_Error :: "APIError \<Rightarrow> string" where
  "APIError_Error e =
     (if Details e \<noteq> [] then Message e @ '': '' @ Details e else Message e)"

definition ExitCode :: "APIError \<Rightarrow> int" where
  "ExitCode e =
     (if StatusCode e = StatusUnauthorized \<or> StatusCode e = StatusForbidden then ExitAuth
      else if StatusCode e = StatusNotFound then ExitNotFound
      else if StatusCode e = StatusTooManyRequests then ExitRateLimit
      else ExitError)"

definition CircuitBreakerError_Error :: string where
  "CircuitBreakerError_Error = ''circuit breaker is open: too many consecutive failures''"

text \<open>The field \<open>ID\<close> of the Go struct \<open>NotFoundError\<close> is \<open>ResourceID\<close> here, since
  \<open>WrongResourceTypeError\<close> has a field \<open>ID\<close> as well.\<close>

record NotFoundError =
  Resource :: string
  ResourceID :: string

definition NotFoundError_Error :: "NotFoundError \<Rightarrow> string" where
  "NotFoundError_Error e =
     (if ResourceID e \<noteq> [] then Resource e @ '' '' @ [CHR 0x27] @ ResourceID e @ ''' not found''
      else Resource e @ '' not found'')"

record RateLimitError =
  RetryAfter :: int

definition RateLimitError_Error :: "RateLimitError \<Rightarrow> string" where
  "RateLimitError_Error e =
     (if RetryAfter e > 0 then ''rate limit exceeded, retry after '' @ Itoa (RetryAfter e) @ '' seconds''
      else ''rate limit exceeded'')"

record WrongResourceTypeError =
  ExpectedType :: string
  ActualType :: string
  ID :: string

definition WrongResourceTypeError_Error :: "WrongResourceTypeError \<Rightarrow> string" where
  "WrongResourceTypeError_Error e =
     [CHR 0x27] @ ID e @ ''' is a '' @ ActualType e @ '' ID, but a '' @ ExpectedType e
       @ '' ID was expected''"

text \<open>
  The values of Go's interface \<open>error\<close> that reach the formatter. The five struct types
  of errors.go are used through pointers; \<open>AuthError\<close> holds another error in its field
  \<open>Err\<close>, which may be \<open>nil\<close> (\<open>None\<close>), and is the only one of them with an \<open>Unwrap\<close>
  method. \<open>ErrNotAuthenticated\<close> is the sentinel value of the package auth.
  \<open>ErrorString\<close> is any other value made by \<open>errors.New\<close> (the sentinels of the package
  api among them), and \<open>WrapError\<close> is a value made by \<open>fmt.Errorf\<close> with one \<open>%w\<close>: its
  own text and the error it wraps. A \<open>nil\<close> error is \<open>None\<close> of \<open>error option\<close>.
\<close>

datatype error =
    WrongResourceTypeErr WrongResourceTypeError
  | APIErr APIError
  | AuthErr "error option"
  | RateLimitErr RateLimitError
  | CircuitBreakerErr
  | NotFoundErr NotFoundError
  | ErrNotAuthenticated
  | ErrorString string
  | WrapError string error

text \<open>Modelled from the spec: the text of the sentinel \<open>auth.ErrNotAuthenticated\<close>, which is
  declared in the package auth; the spec calls it the "not authenticated" sentinel.\<close>

definition ErrNotAuthenticated_text :: string where
  "ErrNotAuthenticated_text = ''not authenticated''"

text \<open>The method \<open>Error\<close> of each value. \<open>AuthError.Error\<close> prints its field with \<open>%v\<close>,
  which is \<open><nil>\<close> for a nil error.\<close>

fun Error :: "error \<Rightarrow> string" where
  "Error (WrongResourceTypeErr e) = WrongResourceTypeError_Error e"
| "Error (APIErr e) = APIError_Error e"
| "Error (AuthErr None) = ''authentication error: '' @ ''<nil>''"
| "Error (AuthErr (Some e)) = ''authentication error: '' @ Error e"
| "Error (RateLimitErr e) = RateLimitError_Error e"
| "Error CircuitBreakerErr = CircuitBreakerError_Error"
| "Error (NotFoundErr e) = NotFoundError_Error e"
| "Error ErrNotAuthenticated = ErrNotAuthenticated_text"
| "Error (ErrorString s) = s"
| "Error (WrapError s e) = s"

text \<open>\<open>errors.Unwrap\<close>: the next error of the chain, \<open>None\<close> at its end.\<close>

fun Unwrap :: "error \<Rightarrow> error option" where
  "Unwrap (AuthErr eo) = eo"
| "Unwrap (WrapError s e) = Some e"
| "Unwrap e = None"

text \<open>
  \<open>errors.As\<close> walks the chain from the error itself and stops at the first value of the
  target type; the target type is given as the type assertion \<open>target\<close>, which returns
  the value when it has that type. None of the types has a method \<open>As\<close> or \<open>Is\<close>.
\<close>

fun errors_As :: "(error \<Rightarrow> 'a option) \<Rightarrow> error \<Rightarrow> 'a option" where
  "errors_As target (AuthErr (Some e)) =
     (case target (AuthErr (Some e)) of Some x \<Rightarrow> Some x | None \<Rightarrow> errors_As target e)"
| "errors_As target (WrapError s e) =
     (case target (WrapError s e) of Some x \<Rightarrow> Some x | None \<Rightarrow> errors_As target e)"
| "errors_As target e = target e"

fun asWrongResourceTypeError :: "error \<Rightarrow> WrongResourceTypeError option" where
  "asWrongResourceTypeError (WrongResourceTypeErr e) = Some e"
| "asWrongResourceTypeError e = None"

fun asAPIError :: "error \<Rightarrow> APIError option" where
  "asAPIError (APIErr e) = Some e"
| "asAPIError e = None"

fun asAuthError :: "error \<Rightarrow> error option option" where
  "asAuthError (AuthErr eo) = Some eo"
| "asAuthError e = None"

fun asRateLimitError :: "error \<Rightarrow> RateLimitError option" where
  "asRateLimitError (RateLimitErr e) = Some e"
| "asRateLimitError e = None"

fun asCircuitBreakerError :: "error \<Rightarrow> unit option" where
  "asCircuitBreakerError CircuitBreakerErr = Some ()"
| "asCircuitBreakerError e = None"

text \<open>\<open>errors.Is\<close> with the sentinel of the package auth as its target: some error of the
  chain is that very value.\<close>

fun Is_ErrNotAuthenticated :: "error \<Rightarrow> bool" where
  "Is_ErrNotAuthenticated ErrNotAuthenticated = True"
| "Is_ErrNotAuthenticated (AuthErr (Some e)) = Is_ErrNotAuthenticated e"
| "Is_ErrNotAuthenticated (WrapError s e) = Is_ErrNotAuthenticated e"
| "Is_ErrNotAuthenticated e = False"

section \<open>Package errfmt (errfmt.go)\<close>

text \<open>
  \<open>api.GetResourceType\<close> is declared in idprefix.go; the formatter takes it as the
  parameter \<open>getResourceType\<close>.
\<close>

fun getSuggestionForResource :: "string \<Rightarrow> string \<Rightarrow> string" where
  "getSuggestionForResource resourceType ident =
     (if resourceType = ''conversation'' then ''frontcli conv get '' @ ident
      else if resourceType = ''message'' then ''frontcli messages get '' @ ident
      else if resourceType = ''comment'' then ''frontcli comments get '' @ ident
      else if resourceType = ''contact'' then ''frontcli contacts get '' @ ident
      else if resourceType = ''teammate'' then ''frontcli teammates get '' @ ident
      else if resourceType = ''tag'' then ''frontcli tags get '' @ ident
      else if resourceType = ''inbox'' then ''frontcli inboxes get '' @ ident
      else if resourceType = ''channel'' then ''frontcli channels get '' @ ident
      else [])"

definition getWrongIDTypeHint :: "(string \<Rightarrow> string) \<Rightarrow> string \<Rightarrow> string \<Rightarrow> string" where
  "getWrongIDTypeHint getResourceType ident expectedResource =
     (let actualType = getResourceType ident in
      if actualType = [] \<or> actualType = expectedResource then []
      else ''  '' @ [CHR 0x27] @ ident @ ''' is a '' @ actualType @ '' ID, but a ''
             @ expectedResource @ '' ID was expected.\<newline>\<newline>''
           @ (let suggestion = getSuggestionForResource actualType ident in
              if suggestion \<noteq> [] then ''  Try: '' @ suggestion @ ''\<newline>'' else []))"

definition formatAPIError :: "(string \<Rightarrow> string) \<Rightarrow> APIError \<Rightarrow> string" where
  "formatAPIError getResourceType err =
     (if StatusCode err = 401 then
        ''Error: Not authenticated\<newline>\<newline>''
        @ ''  Run 'frontcli auth login' to authenticate with Front.\<newline>''
      else if StatusCode err = 403 then
        ''Error: Access denied (403)\<newline>\<newline>''
        @ ''  You don't have permission to perform this action.\<newline>''
        @ ''  Check your account permissions in Front.\<newline>''
      else if StatusCode err = 404 then
        (let sb = ''Error: Not found (404)\<newline>\<newline>''
                  @ (if Details err \<noteq> [] then ''  '' @ Details err @ ''\<newline>\<newline>'' else []);
             hint = (if RequestedID err \<noteq> [] \<and> ExpectedResource err \<noteq> []
                     then getWrongIDTypeHint getResourceType (RequestedID err) (ExpectedResource err)
                     else [])
         in if hint \<noteq> [] then sb @ hint
            else sb @ ''  The resource doesn't exist or you don't have access.\<newline>'')
      else if StatusCode err = 429 then
        ''Error: Rate limit exceeded (429)\<newline>\<newline>''
        @ ''  You've hit Front's API rate limit.\<newline>''
        @ ''  Tip: Use --limit flag to reduce result set size.\<newline>''
      else
        ''Error: '' @ Message err @ '' ('' @ Itoa (StatusCode err) @ '')\<newline>''
        @ (if Details err \<noteq> [] then ''\<newline>  '' @ Details err @ ''\<newline>'' else []))"

text \<open>\<open>formatAuthError\<close> prints the field \<open>Err\<close> with \<open>%v\<close>.\<close>

definition formatAuthError :: "error option \<Rightarrow> string" where
  "formatAuthError eo =
     ''Error: Authentication failed\<newline>\<newline>''
     @ ''  '' @ (case eo of None \<Rightarrow> ''<nil>'' | Some e \<Rightarrow> Error e) @ ''\<newline>\<newline>''
     @ ''  Try running 'frontcli auth login' to re-authenticate.\<newline>''"

definition formatRateLimitError :: "RateLimitError \<Rightarrow> string" where
  "formatRateLimitError err =
     ''Error: Rate limit exceeded\<newline>\<newline>''
     @ (if RetryAfter err > 0 then ''  Retry after '' @ Itoa (RetryAfter err) @ '' seconds.\<newline>''
        else [])
     @ ''  Tip: Use --limit flag to reduce result set size.\<newline>''"

definition formatCircuitBreakerError :: string where
  "formatCircuitBreakerError =
     ''Error: Service temporarily unavailable\<newline>\<newline>''
     @ ''  Too many consecutive failures. Please wait and try again.\<newline>''"

definition formatNotAuthenticatedError :: string where
  "formatNotAuthenticatedError =
     ''Error: Not authenticated\<newline>\<newline>''
     @ ''  Run 'frontcli auth login' to authenticate with Front.\<newline>\<newline>''
     @ ''  If you need to set up OAuth credentials first:\<newline>''
     @ ''    frontcli auth setup <client_id>\<newline>''"

definition formatWrongResourceTypeError :: "WrongResourceTypeError \<Rightarrow> string" where
  "formatWrongResourceTypeError err =
     ''Error: Wrong ID type\<newline>\<newline>''
     @ ''  '' @ [CHR 0x27] @ ID err @ ''' is a '' @ ActualType err @ '' ID, but a ''
       @ ExpectedType err @ '' ID was expected.\<newline>\<newline>''
     @ (let suggestion = getSuggestionForResource (ActualType err) (ID err) in
        if suggestion \<noteq> [] then ''  Try: '' @ suggestion @ ''\<newline>'' else [])"

fun Format :: "(string \<Rightarrow> string) \<Rightarrow> error option \<Rightarrow> string" where
  "Format getResourceType None = []"
| "Format getResourceType (Some err) =
     (case errors_As asWrongResourceTypeError err of
        Some wrongTypeErr \<Rightarrow> formatWrongResourceTypeError wrongTypeErr
      | None \<Rightarrow>
     (case errors_As asAPIError err of
        Some apiErr \<Rightarrow> formatAPIError getResourceType apiErr
      | None \<Rightarrow>
     (case errors_As asAuthError err of
        Some authErr \<Rightarrow> formatAuthError authErr
      | None \<Rightarrow>
     (case errors_As asRateLimitError err of
        Some rateLimitErr \<Rightarrow> formatRateLimitError rateLimitErr
      | None \<Rightarrow>
     (case errors_As asCircuitBreakerError err of
        Some circuitBreakerErr \<Rightarrow> formatCircuitBreakerError
      | None \<Rightarrow>
     (if Is_ErrNotAuthenticated err then formatNotAuthenticatedError
      else ''Error: '' @ Error err))))))"

section \<open>Package api: resource identifiers (idprefix.go)\<close>

text \<open>
  Modelled from the spec: \<open>ExtractPrefix\<close>, \<open>GetResourceType\<close> and \<open>ValidateIDPrefix\<close> are
  declared in idprefix.go, of which the sources hold the tests only. The spec's section
  4.1 is followed: the prefix is the leading \<open>xxx_\<close> segment, returned only if the 4th
  character is the separator and the total length exceeds a minimum. A string has a 4th
  character only when it is longer than three characters, so the minimum is taken to be
  three; any smaller minimum gives the same function (\<open>ExtractPrefix_minimum\<close> below).
\<close>

definition ExtractPrefix :: "string \<Rightarrow> string" where
  "ExtractPrefix ident =
     (if 3 < length ident \<and> ident ! 3 = CHR ''_'' then take 4 ident else [])"

text \<open>
  Modelled from the spec: the static table from prefixes to kind names is a Go map of
  idprefix.go. The spec lists five of its entries and names three more kinds (inbox,
  channel, contact) without their prefixes, so the functions take the table as the
  parameter \<open>prefixToResource\<close>; \<open>listedPrefixes\<close> holds the five entries the spec lists.
  A lookup of a missing key in a Go map gives the empty string.
\<close>

definition listedPrefixes :: "string \<rightharpoonup> string" where
  "listedPrefixes =
     [''cnv_'' \<mapsto> ''conversation'', ''msg_'' \<mapsto> ''message'', ''cmt_'' \<mapsto> ''comment'',
      ''tea_'' \<mapsto> ''teammate'', ''tag_'' \<mapsto> ''tag'']"

definition lookupKind :: "(string \<rightharpoonup> string) \<Rightarrow> string \<Rightarrow> string" where
  "lookupKind prefixToResource p = (case prefixToResource p of None \<Rightarrow> [] | Some kind \<Rightarrow> kind)"

text \<open>Modelled from the spec: \<open>resourceKind\<close> maps the result of \<open>extractPrefix\<close> through the
  table and returns the empty string for unknown prefixes or malformed input.\<close>

definition GetResourceType :: "(string \<rightharpoonup> string) \<Rightarrow> string \<Rightarrow> string" where
  "GetResourceType prefixToResource ident =
     (let prefix = ExtractPrefix ident in
      if prefix = [] then [] else lookupKind prefixToResource prefix)"

text \<open>
  Modelled from the spec: \<open>validate\<close> succeeds (\<open>None\<close>, a nil error) if the actual prefix
  matches the expected one or is unknown or malformed, and fails only when the actual
  prefix is valid, known, and differs from the expected one; the error carries the
  offending ID, the expected kind name and the actual kind name.
\<close>

definition ValidateIDPrefix :: "(string \<rightharpoonup> string) \<Rightarrow> string \<Rightarrow> string \<Rightarrow> error option" where
  "ValidateIDPrefix prefixToResource ident expectedPrefix =
     (let actualPrefix = ExtractPrefix ident in
      if actualPrefix = [] then None
      else if actualPrefix = expectedPrefix then None
      else (case prefixToResource actualPrefix of
              None \<Rightarrow> None
            | Some actualType \<Rightarrow>
                Some (WrongResourceTypeErr
                  \<lparr>ExpectedType = lookupKind prefixToResource expectedPrefix,
                   ActualType = actualType, ID = ident\<rparr>)))"

section \<open>Package api: the circuit breaker\<close>

text \<open>
  Modelled from the spec: the circuit breaker of the API client is not among the sources
  (only the type \<open>CircuitBreakerError\<close> is). The spec's sections 3 and 4.5 are followed.
  The state is \<open>{consecutiveFailures, open, openedAt}\<close> (the field \<open>open\<close> is \<open>isOpen\<close>
  here); the threshold and the cool-down are configured. Time is a parameter of every
  call: \<open>now\<close>, in the unit of the cool-down. A call is rejected at once while the breaker
  is open and the cool-down has not elapsed; otherwise the transport call is attempted,
  and its outcome is recorded: a success resets the counter and closes the breaker, a
  failure while open (the trial call) re-opens it and restarts the timer, and a failure
  while closed counts, opening the breaker when the count reaches the threshold.
\<close>

record CircuitBreakerState =
  consecutiveFailures :: nat
  isOpen :: bool
  openedAt :: int

record CircuitBreakerConfig =
  threshold :: nat
  coolDown :: int

datatype outcome = Success | Failure

datatype callResult = Rejected | Attempted outcome

definition coolDownElapsed :: "CircuitBreakerConfig \<Rightarrow> CircuitBreakerState \<Rightarrow> int \<Rightarrow> bool" where
  "coolDownElapsed cfg st now = (coolDown cfg \<le> now - openedAt st)"

definition allowCall :: "CircuitBreakerConfig \<Rightarrow> CircuitBreakerState \<Rightarrow> int \<Rightarrow> bool" where
  "allowCall cfg st now = (\<not> isOpen st \<or> coolDownElapsed cfg st now)"

definition recordOutcome ::
  "CircuitBreakerConfig \<Rightarrow> CircuitBreakerState \<Rightarrow> int \<Rightarrow> outcome \<Rightarrow> CircuitBreakerState" where
  "recordOutcome cfg st now res =
     (case res of
        Success \<Rightarrow> st\<lparr>consecutiveFailures := 0, isOpen := False\<rparr>
      | Failure \<Rightarrow>
          (if isOpen st then
             st\<lparr>consecutiveFailures := consecutiveFailures st + 1, isOpen := True, openedAt := now\<rparr>
           else if threshold cfg \<le> consecutiveFailures st + 1 then
             st\<lparr>consecutiveFailures := consecutiveFailures st + 1, isOpen := True, openedAt := now\<rparr>
           else st\<lparr>consecutiveFailures := consecutiveFailures st + 1\<rparr>))"

text \<open>One call at time \<open>now\<close>; \<open>res\<close> is what the transport call gives if it is attempted.\<close>

definition breakerCall ::
  "CircuitBreakerConfig \<Rightarrow> CircuitBreakerState \<Rightarrow> int \<Rightarrow> outcome \<Rightarrow> callResult \<times> CircuitBreakerState" where
  "breakerCall cfg st now res =
     (if allowCall cfg st now then (Attempted res, recordOutcome cfg st now res)
      else (Rejected, st))"

text \<open>A sequence of calls, each with its time and the outcome of its transport call: the
  results in order, and the state after the last call.\<close>

fun breakerCalls ::
  "CircuitBreakerConfig \<Rightarrow> CircuitBreakerState \<Rightarrow> (int \<times> outcome) list
     \<Rightarrow> callResult list \<times> CircuitBreakerState" where
  "breakerCalls cfg st [] = ([], st)"
| "breakerCalls cfg st ((now, res) # calls) =
     (let (r, st') = breakerCall cfg st now res;
          (rs, st'') = breakerCalls cfg st' calls
      in (r # rs, st''))"

section \<open>Facts about the library functions\<close>

lemma HasPrefix_iff: "HasPrefix s p \<longleftrightarrow> (\<exists>t. s = p @ t)"
  by (induction s p rule: HasPrefix.induct) auto

lemma HasPrefix_append: "HasPrefix (p @ t) p"
  by (simp add: HasPrefix_iff)

lemma Contains_iff: "Contains s sub \<longleftrightarrow> (\<exists>a b. s = a @ sub @ b)"
proof (induction s)
  case Nil
  then show ?case by auto
next
  case (Cons c cs)
  show ?case
  proof
    assume "Contains (c # cs) sub"
    then consider "HasPrefix (c # cs) sub" | "Contains cs sub" by auto
    then show "\<exists>a b. c # cs = a @ sub @ b"
    proof cases
      case 1
      then obtain t where "c # cs = sub @ t" by (auto simp: HasPrefix_iff)
      then have "c # cs = [] @ sub @ t" by simp
      then show ?thesis by blast
    next
      case 2
      then obtain a b where "cs = a @ sub @ b" using Cons.IH by auto
      then have "c # cs = (c # a) @ sub @ b" by simp
      then show ?thesis by blast
    qed
  next
    assume "\<exists>a b. c # cs = a @ sub @ b"
    then obtain a b where ab: "c # cs = a @ sub @ b" by auto
    show "Contains (c # cs) sub"
    proof (cases a)
      case Nil
      with ab have "HasPrefix (c # cs) sub" by (simp add: HasPrefix_iff)
      then show ?thesis by simp
    next
      case (Cons x a')
      with ab have "cs = a' @ sub @ b" by simp
      then have "Contains cs sub" using Cons.IH by blast
      then show ?thesis by simp
    qed
  qed
qed

lemma Contains_mid: "Contains (a @ sub @ b) sub"
  by (auto simp: Contains_iff)

lemma Contains_sub_prefix: "Contains s (a @ b) \<Longrightarrow> Contains s a"
proof -
  assume "Contains s (a @ b)"
  then obtain x y where "s = x @ (a @ b) @ y" by (auto simp: Contains_iff)
  then have "s = x @ a @ (b @ y)" by simp
  then show ?thesis unfolding Contains_iff by blast
qed

lemma Itoa_30: "Itoa 30 = ''30''"
  by (simp add: Itoa_def natDecimal.simps digitChar_def)

section \<open>The error messages of the package api\<close>

text \<open>
  C3. The message of a \<open>WrongResourceTypeError\<close> with the fields expected, actual and id is
  exactly \<open>'<id>' is a <actual> ID, but a <expected> ID was expected\<close>; for expected
  "conversation", actual "message" and id "msg_abc123" it is
  \<open>'msg_abc123' is a message ID, but a conversation ID was expected\<close>.
\<close>

theorem WrongResourceTypeError_Error_exact:
  "WrongResourceTypeError_Error \<lparr>ExpectedType = expected, ActualType = actual, ID = ident\<rparr>
     = [CHR 0x27] @ ident @ ''' is a '' @ actual @ '' ID, but a '' @ expected @ '' ID was expected''
   \<and> Error (WrongResourceTypeErr
        \<lparr>ExpectedType = ''conversation'', ActualType = ''message'', ID = ''msg_abc123''\<rparr>)
     = '''msg_abc123' is a message ID, but a conversation ID was expected''"
  by (simp add: WrongResourceTypeError_Error_def)

text \<open>
  C6. The exit code of an \<open>APIError\<close> depends on its status code only: 401 and 403 give 3,
  404 gives 4, 429 gives 5 and every other status gives 1; the constants for success and
  for a usage error are 0 and 2.
\<close>

theorem ExitCode_by_status:
  "ExitCode e = (if StatusCode e = 401 \<or> StatusCode e = 403 then 3
                 else if StatusCode e = 404 then 4
                 else if StatusCode e = 429 then 5 else 1)
   \<and> (StatusCode e = StatusCode e' \<longrightarrow> ExitCode e = ExitCode e')
   \<and> ExitSuccess = 0 \<and> ExitUsage = 2"
  by (simp add: ExitCode_def StatusUnauthorized_def StatusForbidden_def StatusNotFound_def
      StatusTooManyRequests_def ExitAuth_def ExitNotFound_def ExitRateLimit_def ExitError_def
      ExitSuccess_def ExitUsage_def)

theorem ExitCode_by_status_witness:
  "ExitCode \<lparr>StatusCode = 404, Message = ''not found'', Details = [], RequestedID = ''cnv_1'',
             ExpectedResource = ''conversation''\<rparr> = 4
   \<and> ExitCode \<lparr>StatusCode = 404, Message = ''not found'', Details = [], RequestedID = ''cnv_1'',
             ExpectedResource = ''conversation''\<rparr>
     = ExitCode \<lparr>StatusCode = 404, Message = ''gone'', Details = ''x'', RequestedID = [],
             ExpectedResource = []\<rparr>
   \<and> ExitCode \<lparr>StatusCode = 500, Message = ''boom'', Details = [], RequestedID = [],
             ExpectedResource = []\<rparr> = 1"
  using ExitCode_by_status
      [of "\<lparr>StatusCode = 404, Message = ''not found'', Details = [], RequestedID = ''cnv_1'',
            ExpectedResource = ''conversation''\<rparr>"
          "\<lparr>StatusCode = 404, Message = ''gone'', Details = ''x'', RequestedID = [],
            ExpectedResource = []\<rparr>"]
    ExitCode_by_status
      [of "\<lparr>StatusCode = 500, Message = ''boom'', Details = [], RequestedID = [],
            ExpectedResource = []\<rparr>"
          "\<lparr>StatusCode = 500, Message = ''boom'', Details = [], RequestedID = [],
            ExpectedResource = []\<rparr>"]
  by simp

section \<open>The rendering of a rate limit\<close>

lemma formatRateLimitError_pos:
  assumes "0 < RetryAfter r"
  shows "Contains (formatRateLimitError r) (''Retry after '' @ Itoa (RetryAfter r) @ '' seconds.'')"
proof -
  have "formatRateLimitError r =
      (''Error: Rate limit exceeded\<newline>\<newline>'' @ ''  '')
        @ (''Retry after '' @ Itoa (RetryAfter r) @ '' seconds.'')
        @ (''\<newline>'' @ ''  Tip: Use --limit flag to reduce result set size.\<newline>'')"
    using assms by (simp add: formatRateLimitError_def)
  then show ?thesis unfolding Contains_iff by blast
qed

lemma formatRateLimitError_nonpos:
  assumes "\<not> 0 < RetryAfter r"
  shows "\<not> Contains (formatRateLimitError r) ''Retry after''"
  using assms by (simp add: formatRateLimitError_def)

lemma RateLimitError_Error_pos:
  assumes "0 < RetryAfter r"
  shows "Contains (RateLimitError_Error r) ('', retry after '' @ Itoa (RetryAfter r) @ '' seconds'')"
proof -
  have "RateLimitError_Error r =
      ''rate limit exceeded'' @ ('', retry after '' @ Itoa (RetryAfter r) @ '' seconds'') @ []"
    using assms by (simp add: RateLimitError_Error_def)
  then show ?thesis unfolding Contains_iff by blast
qed

lemma RateLimitError_Error_nonpos:
  assumes "\<not> 0 < RetryAfter r"
  shows "\<not> Contains (RateLimitError_Error r) ''retry after''"
  using assms by (simp add: RateLimitError_Error_def)

text \<open>
  C10. For every \<open>RateLimitError\<close>, the line \<open>Retry after <n> seconds.\<close> of the formatted
  output and the suffix \<open>, retry after <n> seconds\<close> of the error message are present if
  and only if \<open>RetryAfter\<close> is greater than zero. When it is zero or negative no retry
  text is rendered at all, and the rest of the output is the same in both cases.
\<close>

theorem RateLimitError_retry_text:
  "(Contains (formatRateLimitError r) (''Retry after '' @ Itoa (RetryAfter r) @ '' seconds.'')
      \<longleftrightarrow> 0 < RetryAfter r)
   \<and> (Contains (formatRateLimitError r) ''Retry after'' \<longleftrightarrow> 0 < RetryAfter r)
   \<and> (Contains (RateLimitError_Error r) ('', retry after '' @ Itoa (RetryAfter r) @ '' seconds'')
      \<longleftrightarrow> 0 < RetryAfter r)
   \<and> (Contains (RateLimitError_Error r) ''retry after'' \<longleftrightarrow> 0 < RetryAfter r)
   \<and> formatRateLimitError r =
       ''Error: Rate limit exceeded\<newline>\<newline>''
       @ (if 0 < RetryAfter r then ''  Retry after '' @ Itoa (RetryAfter r) @ '' seconds.\<newline>''
          else [])
       @ ''  Tip: Use --limit flag to reduce result set size.\<newline>''
   \<and> RateLimitError_Error r =
       ''rate limit exceeded''
       @ (if 0 < RetryAfter r then '', retry after '' @ Itoa (RetryAfter r) @ '' seconds'' else [])"
proof (cases "0 < RetryAfter r")
  case True
  have a: "Contains (formatRateLimitError r) (''Retry after '' @ Itoa (RetryAfter r) @ '' seconds.'')"
    using True by (rule formatRateLimitError_pos)
  have "Contains (formatRateLimitError r)
          (''Retry after'' @ ('' '' @ Itoa (RetryAfter r) @ '' seconds.''))"
    using a by simp
  then have b: "Contains (formatRateLimitError r) ''Retry after''"
    by (rule Contains_sub_prefix)
  have c: "Contains (RateLimitError_Error r) ('', retry after '' @ Itoa (RetryAfter r) @ '' seconds'')"
    using True by (rule RateLimitError_Error_pos)
  have "RateLimitError_Error r =
          ''rate limit exceeded, '' @ ''retry after'' @ ('' '' @ Itoa (RetryAfter r) @ '' seconds'')"
    using True by (simp add: RateLimitError_Error_def)
  then have d: "Contains (RateLimitError_Error r) ''retry after''"
    unfolding Contains_iff by blast
  show ?thesis using True a b c d
    by (simp add: formatRateLimitError_def RateLimitError_Error_def)
next
  case False
  have b: "\<not> Contains (formatRateLimitError r) ''Retry after''"
    using False by (rule formatRateLimitError_nonpos)
  have a: "\<not> Contains (formatRateLimitError r)
              (''Retry after '' @ Itoa (RetryAfter r) @ '' seconds.'')"
  proof
    assume "Contains (formatRateLimitError r)
              (''Retry after '' @ Itoa (RetryAfter r) @ '' seconds.'')"
    then have "Contains (formatRateLimitError r)
                 (''Retry after'' @ ('' '' @ Itoa (RetryAfter r) @ '' seconds.''))"
      by simp
    then have "Contains (formatRateLimitError r) ''Retry after''"
      by (rule Contains_sub_prefix)
    with b show False by simp
  qed
  have d: "\<not> Contains (RateLimitError_Error r) ''retry after''"
    using False by (rule RateLimitError_Error_nonpos)
  have c: "\<not> Contains (RateLimitError_Error r)
              ('', retry after '' @ Itoa (RetryAfter r) @ '' seconds'')"
  proof
    assume "Contains (RateLimitError_Error r)
              ('', retry after '' @ Itoa (RetryAfter r) @ '' seconds'')"
    then obtain x y where
      "RateLimitError_Error r = x @ ('', retry after '' @ Itoa (RetryAfter r) @ '' seconds'') @ y"
      by (auto simp: Contains_iff)
    then have "RateLimitError_Error r =
        (x @ '', '') @ ''retry after'' @ ('' '' @ Itoa (RetryAfter r) @ '' seconds'' @ y)"
      by simp
    then have "Contains (RateLimitError_Error r) ''retry after''"
      unfolding Contains_iff by blast
    with d show False by simp
  qed
  show ?thesis using False a b c d
    by (simp add: formatRateLimitError_def RateLimitError_Error_def)
qed

theorem RateLimitError_retry_text_witness:
  "formatRateLimitError \<lparr>RetryAfter = 30\<rparr> =
     ''Error: Rate limit exceeded\<newline>\<newline>  Retry after 30 seconds.\<newline>  Tip: Use --limit flag to reduce result set size.\<newline>''
   \<and> formatRateLimitError \<lparr>RetryAfter = 0\<rparr> =
     ''Error: Rate limit exceeded\<newline>\<newline>  Tip: Use --limit flag to reduce result set size.\<newline>''
   \<and> RateLimitError_Error \<lparr>RetryAfter = 30\<rparr> = ''rate limit exceeded, retry after 30 seconds''
   \<and> RateLimitError_Error \<lparr>RetryAfter = - 5\<rparr> = ''rate limit exceeded''
   \<and> Contains (formatRateLimitError \<lparr>RetryAfter = 30\<rparr>) ''Retry after''
   \<and> \<not> Contains (formatRateLimitError \<lparr>RetryAfter = - 5\<rparr>) ''Retry after''"
  using RateLimitError_retry_text [of "\<lparr>RetryAfter = 30\<rparr>"]
    RateLimitError_retry_text [of "\<lparr>RetryAfter = 0\<rparr>"]
    RateLimitError_retry_text [of "\<lparr>RetryAfter = - 5\<rparr>"]
  by (simp add: Itoa_30)

end
